theory Spec2Isabelle
  imports Complex_Main "HOL-Library.Char_ord" "HOL-Library.List_Lexorder"
begin

section \<open>Values, errors and dictionary lookup\<close>

text \<open>
  The script \<^verbatim>\<open>pytorch.py\<close> trains a small regression network and searches its
  hyperparameters. The values that travel through a trial configuration are strings
  (the optimizer, loss and activation keys) and integers (the two schedule entries).
\<close>

datatype pyval = PInt int | PStr string

text \<open>
  Exceptions are values. \<open>KeyError\<close> carries the key that was looked up, \<open>ValueError\<close>
  the name of the call that raised it.
\<close>

datatype error =
    KeyError pyval
  | TypeError
  | ValueError string
  | RuntimeError
  | AssertionError
  | IndexError
  | MisconfigurationException
  | FileNotFoundError

text \<open>
  \<^verbatim>\<open>d[key]\<close> on a dictionary literal whose keys are strings: an integer key, or a
  string that is not a key, raises \<open>KeyError\<close>.
\<close>

definition getitem :: "(string \<times> 'v) list \<Rightarrow> pyval \<Rightarrow> error + 'v" where
  "getitem d key =
     (case key of
        PStr k \<Rightarrow> (case map_of d k of Some v \<Rightarrow> Inr v | None \<Rightarrow> Inl (KeyError key))
      | PInt i \<Rightarrow> Inl (KeyError key))"

text \<open>
  A trial configuration is the dictionary the tuner hands to the training function:
  \<^verbatim>\<open>config["activation"]\<close> raises \<open>KeyError\<close> when the key is missing.
\<close>

type_synonym config = "string \<rightharpoonup> pyval"

definition config_get :: "config \<Rightarrow> string \<Rightarrow> error + pyval" where
  "config_get config k =
     (case config k of Some v \<Rightarrow> Inr v | None \<Rightarrow> Inl (KeyError (PStr k)))"

section \<open>The model: \<^verbatim>\<open>LightningModel\<close>\<close>

text \<open>
  The three activation modules, the three loss modules and the layers of
  \<^verbatim>\<open>nn.Sequential\<close>. A linear layer is its pair (in_features, out_features); the
  dropout probability is the decimal literal of the source.
\<close>

datatype activation_fn = ReLU | PReLU | ELU


datatype layer = Linear int int | Activation activation_fn | Dropout rat


record LightningModel =
  num_features :: int
  activation :: pyval
  optimizer_name :: pyval
  loss_name :: pyval
  model :: "layer list"




text \<open>
  \<^verbatim>\<open>
  def get_activation(self):
      activations = {"ReLU": nn.ReLU(), "PReLU": nn.PReLU(), "ELU": nn.ELU()}
      return activations[self.activation]
  \<close>
\<close>

definition get_activation :: "LightningModel \<Rightarrow> error + activation_fn" where
  "get_activation self =
     (let activations = [(''ReLU'', ReLU), (''PReLU'', PReLU), (''ELU'', ELU)]
      in getitem activations (activation self))"

text \<open>
  \<^verbatim>\<open>
  def build_model(self):
      hidden_size = self.num_features // 2
      hidden_size2 = hidden_size // 2
      return nn.Sequential(
          nn.Linear(self.num_features, hidden_size),
          self.get_activation(),
          nn.Dropout(0.3),
          nn.Linear(hidden_size, hidden_size2),
          self.get_activation(),
          nn.Dropout(0.3),
          nn.Linear(hidden_size2, 1))
  \<close>
  Python's \<^verbatim>\<open>//\<close> on integers rounds towards minus infinity, as \<open>div\<close> on \<open>int\<close>
  does. \<^verbatim>\<open>get_activation\<close> is called twice, and each call can raise.
\<close>

definition build_model :: "LightningModel \<Rightarrow> error + layer list" where
  "build_model self =
     (let hidden_size = num_features self div 2;
          hidden_size2 = hidden_size div 2
      in case get_activation self of
           Inl e \<Rightarrow> Inl e
         | Inr act1 \<Rightarrow>
             (case get_activation self of
                Inl e \<Rightarrow> Inl e
              | Inr act2 \<Rightarrow>
                  Inr [Linear (num_features self) hidden_size,
                       Activation act1,
                       Dropout (3 / 10),
                       Linear hidden_size hidden_size2,
                       Activation act2,
                       Dropout (3 / 10),
                       Linear hidden_size2 1]))"

text \<open>
  \<^verbatim>\<open>__init__\<close> stores the four arguments and then builds the network from them.
\<close>

definition LightningModel_init :: "int \<Rightarrow> pyval \<Rightarrow> pyval \<Rightarrow> pyval \<Rightarrow> error + LightningModel" where
  "LightningModel_init nf act opt loss =
     (let self = \<lparr>num_features = nf, activation = act, optimizer_name = opt,
                  loss_name = loss, model = []\<rparr>
      in case build_model self of
           Inl e \<Rightarrow> Inl e
         | Inr m \<Rightarrow> Inr (self\<lparr>model := m\<rparr>))"




text \<open>
  The layer sequence as the specification words it: linear (n to n/2), activation,
  dropout 0.3, linear (n/2 to (n/2)/2), activation, dropout 0.3, linear (to 1).
\<close>

definition spec_layers :: "int \<Rightarrow> activation_fn \<Rightarrow> layer list" where
  "spec_layers n a =
     [Linear n (n div 2), Activation a, Dropout (3 / 10),
      Linear (n div 2) ((n div 2) div 2), Activation a, Dropout (3 / 10),
      Linear ((n div 2) div 2) 1]"

section \<open>One trial: \<^verbatim>\<open>train_model_tune\<close>\<close>

text \<open>
  The objects handed to the training library are records of the arguments the script
  passes. \<^verbatim>\<open>ModelCheckpoint\<close> is called with \<^verbatim>\<open>dirpath\<close>, \<^verbatim>\<open>filename\<close>,
  \<^verbatim>\<open>save_top_k\<close>, \<^verbatim>\<open>verbose\<close> and \<^verbatim>\<open>every_n_epochs\<close>; the quantity to monitor
  is not passed and keeps its default, \<^verbatim>\<open>None\<close>.
\<close>

record ModelCheckpoint =
  dirpath :: string
  filename :: string
  monitor :: "string option"
  save_top_k :: int
  verbose :: bool
  every_n_epochs :: int

text \<open>
  The constructor of the checkpoint callback checks its configuration and raises
  \<open>MisconfigurationException\<close> when \<^verbatim>\<open>save_top_k\<close> is below -1, when
  \<^verbatim>\<open>every_n_epochs\<close> is negative, and when no quantity is monitored while
  \<^verbatim>\<open>save_top_k\<close> is none of -1 (keep all), 0 (keep none) and 1 (keep the last): with
  nothing to monitor there is no score to pick the best \<open>k\<close> by.
\<close>

definition new_ModelCheckpoint ::
  "string \<Rightarrow> string \<Rightarrow> string option \<Rightarrow> int \<Rightarrow> bool \<Rightarrow> int \<Rightarrow> error + ModelCheckpoint" where
  "new_ModelCheckpoint dp fname mon k vb n =
     (if k < - 1 then Inl MisconfigurationException
      else if n < 0 then Inl MisconfigurationException
      else if mon = None \<and> k \<noteq> - 1 \<and> k \<noteq> 0 \<and> k \<noteq> 1 then Inl MisconfigurationException
      else Inr \<lparr>dirpath = dp, filename = fname, monitor = mon, save_top_k = k,
                verbose = vb, every_n_epochs = n\<rparr>)"

datatype callback =
    TuneReportCheckpointCallback "(string \<times> string) list" string
  | CheckpointCallback ModelCheckpoint

record Trainer =
  max_epochs :: int
  accelerator :: string
  devices :: string
  callbacks :: "callback list"
  enable_progress_bar :: bool

text \<open>The call \<^verbatim>\<open>trainer.fit(model, train_dataloader, val_dataloader)\<close>.\<close>

record 'dl fit_call =
  trainer :: Trainer
  module :: LightningModel
  train_dataloaders :: 'dl
  val_dataloaders :: 'dl

text \<open>
  \<^verbatim>\<open>
  def train_model_tune(config, num_features, train_dataloader, val_dataloader,
                       max_epochs=100):
      model = LightningModel(num_features=num_features,
                             activation=config["activation"],
                             optimizer_name=config["optimizer"],
                             loss_name=config["loss_function"])
      metrics = {"loss": "val_loss"}
      checkpoint_callback = ModelCheckpoint(dirpath="checkpoints",
          filename="epoch-{epoch:02d}-val_loss-{val_loss:.2f}",
          save_top_k=5, verbose=True, every_n_epochs=1)
      callbacks = [TuneReportCheckpointCallback(metrics, on="validation_end"),
                   checkpoint_callback]
      is_headless = not sys.stdout.isatty()
      trainer = L.Trainer(max_epochs=max_epochs, accelerator='auto', devices='auto',
                          callbacks=callbacks, enable_progress_bar=not is_headless)
      trainer.fit(model, train_dataloader, val_dataloader)
  \<close>
  The result is the call to \<^verbatim>\<open>fit\<close> that the function reaches, or the exception
  raised before it: by a missing key of the configuration, by the construction of the
  model, or by the construction of the checkpoint callback.
  \<open>isatty\<close> is what \<^verbatim>\<open>sys.stdout.isatty()\<close> answers.
\<close>

definition train_model_tune ::
  "bool \<Rightarrow> config \<Rightarrow> int \<Rightarrow> 'dl \<Rightarrow> 'dl \<Rightarrow> int \<Rightarrow> error + 'dl fit_call" where
  "train_model_tune isatty config nf train_dataloader val_dataloader epochs =
     (case config_get config ''activation'' of
        Inl e \<Rightarrow> Inl e
      | Inr act \<Rightarrow>
     (case config_get config ''optimizer'' of
        Inl e \<Rightarrow> Inl e
      | Inr opt \<Rightarrow>
     (case config_get config ''loss_function'' of
        Inl e \<Rightarrow> Inl e
      | Inr loss \<Rightarrow>
     (case LightningModel_init nf act opt loss of
        Inl e \<Rightarrow> Inl e
      | Inr m \<Rightarrow>
          (let metrics = [(''loss'', ''val_loss'')]
           in case new_ModelCheckpoint ''checkpoints''
                     ''epoch-{epoch:02d}-val_loss-{val_loss:.2f}'' None 5 True 1 of
                Inl e \<Rightarrow> Inl e
              | Inr checkpoint_callback \<Rightarrow>
                  (let cbs = [TuneReportCheckpointCallback metrics ''validation_end'',
                              CheckpointCallback checkpoint_callback];
                       is_headless = (\<not> isatty);
                       tr = \<lparr>max_epochs = epochs, accelerator = ''auto'',
                             devices = ''auto'', callbacks = cbs,
                             enable_progress_bar = (\<not> is_headless)\<rparr>
                   in Inr \<lparr>trainer = tr, module = m,
                            train_dataloaders = train_dataloader,
                            val_dataloaders = val_dataloader\<rparr>))))))"

text \<open>
  \<^verbatim>\<open>partial(train_model_tune, num_features=..., train_dataloader=...,
  val_dataloader=...)\<close>: the tuner calls it with a configuration only, so
  \<^verbatim>\<open>max_epochs\<close> has its default, 100.
\<close>

definition trainable :: "bool \<Rightarrow> int \<Rightarrow> 'dl \<Rightarrow> 'dl \<Rightarrow> config \<Rightarrow> error + 'dl fit_call" where
  "trainable isatty nf train_dataloader val_dataloader config =
     train_model_tune isatty config nf train_dataloader val_dataloader 100"

section \<open>The tuning driver: \<^verbatim>\<open>tune_hyperparameters\<close>\<close>

text \<open>
  The search space. \<^verbatim>\<open>tune.choice(categories)\<close> is a categorical domain.
  \<^verbatim>\<open>tune.grid_search(values)\<close> is the tuning library's marker for a grid axis: the
  dictionary \<^verbatim>\<open>{"grid_search": values}\<close>.
\<close>

datatype domain = Categorical "string list"

definition choice :: "string list \<Rightarrow> domain" where
  "choice categories = Categorical categories"

definition grid_search :: "'a list \<Rightarrow> (string \<times> 'a list) list" where
  "grid_search vals = [(''grid_search'', vals)]"

text \<open>
  The dictionary \<^verbatim>\<open>config\<close> of the driver has five fixed keys; the record's fields are
  the entries under \<^verbatim>\<open>"optimizer"\<close>, \<^verbatim>\<open>"loss_function"\<close>, \<^verbatim>\<open>"activation"\<close>,
  \<^verbatim>\<open>"max_t"\<close> and \<^verbatim>\<open>"grace_period"\<close>.
\<close>

record search_space =
  space_optimizer :: domain
  space_loss_function :: domain
  space_activation :: domain
  space_max_t :: "(string \<times> int list) list"
  space_grace_period :: "(string \<times> int list) list"

definition search_config :: search_space where
  "search_config =
     \<lparr>space_optimizer = choice [''Adam'', ''AdamW''],
      space_loss_function = choice [''MAE'', ''MSE'', ''SmoothL1Loss''],
      space_activation = choice [''ReLU'', ''PReLU'', ''ELU''],
      space_max_t = grid_search [20, 30, 40],
      space_grace_period = grid_search [5, 10, 15]\<rparr>"

text \<open>
  Python's \<^verbatim>\<open>max\<close> and \<^verbatim>\<open>min\<close> of an iterable: \<open>ValueError\<close> when it is empty,
  otherwise the first greatest (least) item. Iterating a dictionary yields its keys.
  Strings are ordered lexicographically by character code.
\<close>

fun py_max :: "'a::linorder list \<Rightarrow> error + 'a" where
  "py_max [] = Inl (ValueError ''max'')"
| "py_max (x # xs) = Inr (fold (\<lambda>item best. if best < item then item else best) xs x)"

fun py_min :: "'a::linorder list \<Rightarrow> error + 'a" where
  "py_min [] = Inl (ValueError ''min'')"
| "py_min (x # xs) = Inr (fold (\<lambda>item best. if item < best then item else best) xs x)"

definition dict_iter :: "('k \<times> 'v) list \<Rightarrow> 'k list" where
  "dict_iter d = map fst d"

text \<open>
  The two bounds the driver passes to the scheduler:
  \<^verbatim>\<open>max(config['max_t'])\<close> and \<^verbatim>\<open>min(config['grace_period'])\<close>.
\<close>

definition scheduler_max_t :: "error + pyval" where
  "scheduler_max_t = map_sum id PStr (py_max (dict_iter (space_max_t search_config)))"

definition scheduler_grace_period :: "error + pyval" where
  "scheduler_grace_period =
     map_sum id PStr (py_min (dict_iter (space_grace_period search_config)))"

text \<open>
  The early-stopping scheduler. Its bounds are numbers: the constructor checks
  \<^verbatim>\<open>max_t > 0\<close>, \<^verbatim>\<open>max_t >= grace_period\<close>, \<^verbatim>\<open>grace_period > 0\<close> and
  \<^verbatim>\<open>reduction_factor > 1\<close>, and ordering a string against an integer raises
  \<open>TypeError\<close>.
\<close>

record ASHAScheduler =
  time_attr :: string
  max_t :: int
  grace_period :: int
  reduction_factor :: int

definition new_ASHAScheduler :: "string \<Rightarrow> pyval \<Rightarrow> pyval \<Rightarrow> int \<Rightarrow> error + ASHAScheduler" where
  "new_ASHAScheduler attr mt gp rf =
     (case mt of
        PStr s \<Rightarrow> Inl TypeError
      | PInt m \<Rightarrow>
          if \<not> 0 < m then Inl AssertionError
          else (case gp of
                  PStr s \<Rightarrow> Inl TypeError
                | PInt g \<Rightarrow>
                    if \<not> g \<le> m then Inl AssertionError
                    else if \<not> 0 < g then Inl AssertionError
                    else if \<not> 1 < rf then Inl AssertionError
                    else Inr \<lparr>time_attr = attr, max_t = m, grace_period = g,
                              reduction_factor = rf\<rparr>))"

definition tune_scheduler :: "error + ASHAScheduler" where
  "tune_scheduler =
     (case scheduler_max_t of
        Inl e \<Rightarrow> Inl e
      | Inr mt \<Rightarrow>
          (case scheduler_grace_period of
             Inl e \<Rightarrow> Inl e
           | Inr gp \<Rightarrow> new_ASHAScheduler ''training_iteration'' mt gp 2))"

record OptunaSearch =
  search_metric :: string
  search_mode :: string

record TuneConfig =
  metric :: string
  mode :: string
  search_alg :: OptunaSearch
  scheduler :: ASHAScheduler
  num_samples :: int

record 'dl Tuner =
  tuner_trainable :: "config \<Rightarrow> error + 'dl fit_call"
  tune_config :: TuneConfig
  param_space :: search_space

text \<open>What \<^verbatim>\<open>get_best_result\<close> returns: a trial's configuration and its last metrics.\<close>

record trial_result =
  result_config :: config
  result_metrics :: "string \<rightharpoonup> real"

text \<open>
  \<^verbatim>\<open>
  def tune_hyperparameters(num_features, train_dataloader, val_dataloader,
                           num_samples=10):
      config = {...}
      search_algo = OptunaSearch(metric="loss", mode="min")
      scheduler = ASHAScheduler(time_attr='training_iteration',
                                max_t=max(config['max_t']),
                                grace_period=min(config['grace_period']),
                                reduction_factor=2)
      tuner = tune.Tuner(partial(train_model_tune, ...),
                         tune_config=tune.TuneConfig(metric="loss", mode="min",
                             search_alg=search_algo, scheduler=scheduler,
                             num_samples=num_samples),
                         param_space=config)
      results = tuner.fit()
      best_result = results.get_best_result(metric="loss", mode="min")
      best_trial_config = best_result.config
      best_trial_loss = best_result.metrics['loss']
      ...
      return best_trial_config
  \<close>
  The search itself (\<open>fit\<close>) and the selection among its results (\<open>get_best_result\<close>)
  belong to the tuning library and are parameters here.
\<close>

definition tune_hyperparameters ::
  "('dl Tuner \<Rightarrow> error + 'r) \<Rightarrow> ('r \<Rightarrow> string \<Rightarrow> string \<Rightarrow> error + trial_result) \<Rightarrow>
   bool \<Rightarrow> int \<Rightarrow> 'dl \<Rightarrow> 'dl \<Rightarrow> int \<Rightarrow> error + config" where
  "tune_hyperparameters fit get_best_result isatty nf train_dataloader val_dataloader samples =
     (let search_algo = \<lparr>search_metric = ''loss'', search_mode = ''min''\<rparr>
      in case tune_scheduler of
           Inl e \<Rightarrow> Inl e
         | Inr sched \<Rightarrow>
             (let tuner =
                \<lparr>tuner_trainable = trainable isatty nf train_dataloader val_dataloader,
                 tune_config = \<lparr>metric = ''loss'', mode = ''min'', search_alg = search_algo,
                                scheduler = sched, num_samples = samples\<rparr>,
                 param_space = search_config\<rparr>
              in case fit tuner of
                   Inl e \<Rightarrow> Inl e
                 | Inr results \<Rightarrow>
                     (case get_best_result results ''loss'' ''min'' of
                        Inl e \<Rightarrow> Inl e
                      | Inr best_result \<Rightarrow>
                          (let best_trial_config = result_config best_result
                           in case result_metrics best_result ''loss'' of
                                None \<Rightarrow> Inl (KeyError (PStr ''loss''))
                              | Some best_trial_loss \<Rightarrow> Inr best_trial_config))))"

section \<open>Dataset preparation and the entry point\<close>

text \<open>
  A data frame is a table: the column labels and the rows, each row with one cell per
  column. The labels of a table read from a columnar file are distinct.
\<close>

record 'a dataframe =
  col_names :: "string list"
  rows :: "'a list list"

text \<open>
  \<^verbatim>\<open>df.astype('float32')\<close> converts every cell and raises \<open>ValueError\<close> when a cell
  has no numeric reading; \<open>cast\<close> is the conversion of one cell.
\<close>

definition astype :: "('a \<Rightarrow> 'b option) \<Rightarrow> 'a dataframe \<Rightarrow> error + 'b dataframe" where
  "astype cast df =
     (if list_all (list_all (\<lambda>c. cast c \<noteq> None)) (rows df)
      then Inr \<lparr>col_names = col_names df, rows = map (map (\<lambda>c. the (cast c))) (rows df)\<rparr>
      else Inl (ValueError ''astype''))"

text \<open>
  \<^verbatim>\<open>df.sample(n)\<close> draws \<open>n\<close> rows without replacement and raises \<open>ValueError\<close> when
  the frame has fewer than \<open>n\<close> rows. \<open>pick\<close> is the random draw: given the number of
  rows and \<open>n\<close>, the positions of the rows drawn.
\<close>

definition sample :: "nat \<Rightarrow> (nat \<Rightarrow> nat \<Rightarrow> nat list) \<Rightarrow> 'a dataframe \<Rightarrow> error + 'a dataframe" where
  "sample n pick df =
     (if length (rows df) < n then Inl (ValueError ''sample'')
      else Inr \<lparr>col_names = col_names df,
                rows = map (\<lambda>i. rows df ! i) (pick (length (rows df)) n)\<rparr>)"

fun index_of :: "'a list \<Rightarrow> 'a \<Rightarrow> nat" where
  "index_of [] x = 0"
| "index_of (y # ys) x = (if x = y then 0 else Suc (index_of ys x))"

text \<open>\<^verbatim>\<open>df[label]\<close>: the column with that label, \<open>KeyError\<close> when there is none.\<close>

definition column :: "'a dataframe \<Rightarrow> string \<Rightarrow> error + 'a list" where
  "column df label =
     (if label \<in> set (col_names df)
      then Inr (map (\<lambda>r. r ! index_of (col_names df) label) (rows df))
      else Inl (KeyError (PStr label)))"

text \<open>\<^verbatim>\<open>df.drop(columns=[label])\<close>: the frame without that column, or \<open>KeyError\<close>.\<close>

definition drop_column :: "'a dataframe \<Rightarrow> string \<Rightarrow> error + 'a dataframe" where
  "drop_column df label =
     (if label \<in> set (col_names df)
      then Inr \<lparr>col_names = filter (\<lambda>c. c \<noteq> label) (col_names df),
                rows = map (\<lambda>r. map snd (filter (\<lambda>cv. fst cv \<noteq> label) (zip (col_names df) r)))
                         (rows df)\<rparr>
      else Inl (KeyError (PStr label)))"

text \<open>
  \<^verbatim>\<open>
  df = pd.read_parquet('data.parquet')
  df = df.astype('float32')
  df = df.sample(1500)
  target_column = 'perf'
  y = df[target_column]
  X = df.drop(columns=[target_column])
  \<close>
  \<open>read_parquet\<close> is what reading the file gives: a frame, or the exception.
\<close>

definition prepare ::
  "error + 'a dataframe \<Rightarrow> ('a \<Rightarrow> 'b option) \<Rightarrow> (nat \<Rightarrow> nat \<Rightarrow> nat list) \<Rightarrow>
   error + 'b dataframe \<times> 'b list" where
  "prepare read_parquet cast pick =
     (case read_parquet of
        Inl e \<Rightarrow> Inl e
      | Inr df0 \<Rightarrow>
     (case astype cast df0 of
        Inl e \<Rightarrow> Inl e
      | Inr df1 \<Rightarrow>
     (case sample 1500 pick df1 of
        Inl e \<Rightarrow> Inl e
      | Inr df \<Rightarrow>
          (let target_column = ''perf''
           in case column df target_column of
                Inl e \<Rightarrow> Inl e
              | Inr y \<Rightarrow>
                  (case drop_column df target_column of
                     Inl e \<Rightarrow> Inl e
                   | Inr X \<Rightarrow> Inr (X, y))))))"

text \<open>
  \<^verbatim>\<open>CustomDataset\<close> and the two loaders. A loader is the record of the arguments given
  to \<^verbatim>\<open>DataLoader\<close>.
\<close>

record 'a CustomDataset =
  features :: "'a list list"
  labels :: "'a list"

definition dataset_len :: "'a CustomDataset \<Rightarrow> nat" where
  "dataset_len self = length (features self)"

definition dataset_getitem :: "'a CustomDataset \<Rightarrow> nat \<Rightarrow> error + 'a list \<times> 'a" where
  "dataset_getitem self idx =
     (if idx < length (features self) \<and> idx < length (labels self)
      then Inr (features self ! idx, labels self ! idx)
      else Inl IndexError)"

record 'a DataLoader =
  dataset :: "'a CustomDataset"
  batch_size :: nat
  shuffle :: bool
  num_workers :: nat

text \<open>
  The whole script: the module-level preparation, the split (the library's
  \<^verbatim>\<open>train_test_split\<close>, called with \<^verbatim>\<open>test_size=0.2\<close> and \<^verbatim>\<open>random_state=42\<close>), the
  datasets and loaders, and the call of the driver with a budget of 18 samples.
  \<open>cpu_count\<close> is what \<^verbatim>\<open>multiprocessing.cpu_count()\<close> answers.
\<close>

definition main ::
  "error + 'a dataframe \<Rightarrow> ('a \<Rightarrow> 'b option) \<Rightarrow> (nat \<Rightarrow> nat \<Rightarrow> nat list) \<Rightarrow>
   ('b dataframe \<Rightarrow> 'b list \<Rightarrow> rat \<Rightarrow> int \<Rightarrow>
      error + ('b dataframe \<times> 'b dataframe \<times> 'b list \<times> 'b list)) \<Rightarrow>
   nat \<Rightarrow> ('b DataLoader Tuner \<Rightarrow> error + 'r) \<Rightarrow>
   ('r \<Rightarrow> string \<Rightarrow> string \<Rightarrow> error + trial_result) \<Rightarrow> bool \<Rightarrow> error + config" where
  "main read_parquet cast pick train_test_split cpu_count fit get_best_result isatty =
     (case prepare read_parquet cast pick of
        Inl e \<Rightarrow> Inl e
      | Inr (X, y) \<Rightarrow>
     (case train_test_split X y (2 / 10) 42 of
        Inl e \<Rightarrow> Inl e
      | Inr (X_train, X_test, y_train, y_test) \<Rightarrow>
          (let train_dataset = \<lparr>features = rows X_train, labels = y_train\<rparr>;
               test_dataset = \<lparr>features = rows X_test, labels = y_test\<rparr>;
               workers = min 8 cpu_count;
               train_dataloader = \<lparr>dataset = train_dataset, batch_size = 1024,
                                   shuffle = True, num_workers = workers\<rparr>;
               test_dataloader = \<lparr>dataset = test_dataset, batch_size = 1024,
                                  shuffle = False, num_workers = workers\<rparr>
           in tune_hyperparameters fit get_best_result isatty
                (int (length (col_names X))) train_dataloader test_dataloader 18)))"

section \<open>Lookup results\<close>

lemma getitem_found: "map_of d k = Some v \<Longrightarrow> getitem d (PStr k) = Inr v"
  by (simp add: getitem_def)

lemma getitem_missing: "map_of d k = None \<Longrightarrow> getitem d (PStr k) = Inl (KeyError (PStr k))"
  by (simp add: getitem_def)

lemma getitem_int: "getitem d (PInt i) = Inl (KeyError (PInt i))"
  by (simp add: getitem_def)

lemma get_activation_cases:
  "get_activation self =
     (if activation self = PStr ''ReLU'' then Inr ReLU
      else if activation self = PStr ''PReLU'' then Inr PReLU
      else if activation self = PStr ''ELU'' then Inr ELU
      else Inl (KeyError (activation self)))"
  by (cases "activation self") (auto simp: get_activation_def getitem_def)



section \<open>The network that is built\<close>

lemma build_model_cases:
  "build_model self =
     (case get_activation self of
        Inl e \<Rightarrow> Inl e
      | Inr a \<Rightarrow> Inr (spec_layers (num_features self) a))"
  by (simp add: build_model_def spec_layers_def Let_def split: sum.splits)


lemma init_cases:
  "LightningModel_init nf act opt loss =
     (case getitem [(''ReLU'', ReLU), (''PReLU'', PReLU), (''ELU'', ELU)] act of
        Inl e \<Rightarrow> Inl e
      | Inr a \<Rightarrow> Inr \<lparr>num_features = nf, activation = act, optimizer_name = opt,
                      loss_name = loss, model = spec_layers nf a\<rparr>)"
  by (simp add: LightningModel_init_def build_model_cases get_activation_def Let_def
           split: sum.splits)



text \<open>
  Claim C10. The two hidden widths are the floor of half the feature count and the
  floor of half of that. For a feature count from 0 to 3 the second hidden width is 0,
  and \<^verbatim>\<open>build_model\<close> still returns the network: nothing checks the widths.
\<close>

theorem hidden_widths_floor:
  "(\<forall>m. build_model self = Inr m \<longrightarrow>
      m ! 0 = Linear (num_features self) (num_features self div 2) \<and>
      m ! 3 = Linear (num_features self div 2) (num_features self div 2 div 2) \<and>
      m ! 6 = Linear (num_features self div 2 div 2) 1) \<and>
   num_features self div 2 = \<lfloor>real_of_int (num_features self) / 2\<rfloor> \<and>
   num_features self div 2 div 2 = \<lfloor>real_of_int \<lfloor>real_of_int (num_features self) / 2\<rfloor> / 2\<rfloor> \<and>
   (0 \<le> num_features self \<and> num_features self \<le> 3 \<and>
    activation self \<in> {PStr ''ReLU'', PStr ''PReLU'', PStr ''ELU''} \<longrightarrow>
      (\<exists>a. build_model self =
            Inr [Linear (num_features self) (num_features self div 2), Activation a,
                 Dropout (3 / 10), Linear (num_features self div 2) 0, Activation a,
                 Dropout (3 / 10), Linear 0 1]))"
proof -
  have fl: "k div 2 = \<lfloor>real_of_int k / 2\<rfloor>" for k :: int
    using floor_divide_of_int_eq [of k 2, where ?'a = real] by simp
  have small: "0 \<le> k \<Longrightarrow> k \<le> 3 \<Longrightarrow> k div 2 div 2 = 0" for k :: int
    by simp
  show ?thesis
    using fl [of "num_features self"] fl [of "num_features self div 2"]
    by (auto simp: build_model_cases get_activation_cases spec_layers_def small
             split: if_splits)
qed

theorem hidden_widths_floor_witness:
  "build_model \<lparr>num_features = 3, activation = PStr ''ReLU'', optimizer_name = PStr ''Adam'',
                loss_name = PStr ''MSE'', model = []\<rparr>
     = Inr [Linear 3 1, Activation ReLU, Dropout (3 / 10), Linear 1 0, Activation ReLU,
            Dropout (3 / 10), Linear 0 1]"
  using hidden_widths_floor [of
      "\<lparr>num_features = 3, activation = PStr ''ReLU'', optimizer_name = PStr ''Adam'',
        loss_name = PStr ''MSE'', model = []\<rparr>"]
  by (simp add: build_model_cases get_activation_cases spec_layers_def)

section \<open>Resolving the keys of a configuration\<close>

lemma new_ModelCheckpoint_top5_unmonitored:
  "new_ModelCheckpoint dp fname None 5 vb 1 = Inl MisconfigurationException"
  by (simp add: new_ModelCheckpoint_def)

lemma train_model_tune_cases:
  "train_model_tune isatty config nf tdl vdl epochs =
     (case config ''activation'' of
        None \<Rightarrow> Inl (KeyError (PStr ''activation''))
      | Some act \<Rightarrow>
     (case config ''optimizer'' of
        None \<Rightarrow> Inl (KeyError (PStr ''optimizer''))
      | Some opt \<Rightarrow>
     (case config ''loss_function'' of
        None \<Rightarrow> Inl (KeyError (PStr ''loss_function''))
      | Some loss \<Rightarrow>
     (case LightningModel_init nf act opt loss of
        Inl e \<Rightarrow> Inl e
      | Inr m \<Rightarrow> Inl MisconfigurationException))))"
  by (simp add: train_model_tune_def config_get_def Let_def
        new_ModelCheckpoint_top5_unmonitored split: option.splits sum.splits)















section \<open>What a trial does, and what the driver builds\<close>





text \<open>
  Claim C5. The checkpoint callback of a trial is asked to keep the 5 best snapshots,
  once per epoch, under a file name made of the epoch and the validation loss, but it is
  given no quantity to monitor. Its construction raises, and so does every trial whose
  three keys are valid: no snapshot is ever ranked, kept or evicted.
\<close>

theorem checkpoint_without_monitor:
  "new_ModelCheckpoint ''checkpoints'' ''epoch-{epoch:02d}-val_loss-{val_loss:.2f}''
     None 5 True 1 = Inl MisconfigurationException \<and>
   trainable True 8 () ()
     [''activation'' \<mapsto> PStr ''ReLU'', ''optimizer'' \<mapsto> PStr ''Adam'',
      ''loss_function'' \<mapsto> PStr ''MSE'', ''max_t'' \<mapsto> PInt 20, ''grace_period'' \<mapsto> PInt 5]
   = (Inl MisconfigurationException :: error + unit fit_call) \<and>
   (\<forall>call. trainable isatty nf tdl vdl c \<noteq> Inr call)"
proof -
  have "trainable isatty nf tdl vdl c \<noteq> Inr call" for call
    unfolding trainable_def train_model_tune_cases
    by (simp split: option.splits sum.splits)
  then show ?thesis
    by (simp add: new_ModelCheckpoint_top5_unmonitored trainable_def
          train_model_tune_cases init_cases getitem_def)
qed

lemma scheduler_max_t_eval: "scheduler_max_t = Inr (PStr ''grid_search'')"
  by (simp add: scheduler_max_t_def search_config_def grid_search_def dict_iter_def)

lemma scheduler_grace_period_eval: "scheduler_grace_period = Inr (PStr ''grid_search'')"
  by (simp add: scheduler_grace_period_def search_config_def grid_search_def dict_iter_def)

lemma tune_scheduler_eval: "tune_scheduler = Inl TypeError"
  by (simp add: tune_scheduler_def scheduler_max_t_eval scheduler_grace_period_eval
        new_ASHAScheduler_def)

text \<open>
  Claim C9. The two bounds handed to the scheduler are not 40 and 5. The entries under
  \<^verbatim>\<open>"max_t"\<close> and \<^verbatim>\<open>"grace_period"\<close> are grid-search dictionaries, and the greatest
  and the least item of such a dictionary is its only key, the string
  \<^verbatim>\<open>"grid_search"\<close>; the scheduler cannot be constructed from them. (That the training
  function ignores the two sampled entries is shown with the training function above.)
\<close>

theorem scheduler_bounds_are_keys:
  "scheduler_max_t = Inr (PStr ''grid_search'') \<and>
   scheduler_grace_period = Inr (PStr ''grid_search'') \<and>
   scheduler_max_t \<noteq> Inr (PInt 40) \<and>
   scheduler_grace_period \<noteq> Inr (PInt 5) \<and>
   tune_scheduler = Inl TypeError"
  by (simp add: scheduler_max_t_eval scheduler_grace_period_eval tune_scheduler_eval)

text \<open>
  Claim C1. Called with a budget of 18 samples, the driver raises \<open>TypeError\<close> while
  constructing the scheduler, whatever the search and the selection of the best result
  would do: no search is run and no configuration is returned.
\<close>

theorem tune_hyperparameters_raises:
  "tune_hyperparameters fit get_best_result isatty nf train_dataloader val_dataloader 18
     = Inl TypeError"
  by (simp add: tune_hyperparameters_def tune_scheduler_eval)

section \<open>Failures of the dataset preparation\<close>

lemma astype_ok:
  "list_all (list_all (\<lambda>c. cast c \<noteq> None)) (rows df) \<Longrightarrow>
     astype cast df =
       Inr \<lparr>col_names = col_names df, rows = map (map (\<lambda>c. the (cast c))) (rows df)\<rparr>"
  by (simp add: astype_def)

lemma astype_fail:
  "\<not> list_all (list_all (\<lambda>c. cast c \<noteq> None)) (rows df) \<Longrightarrow>
     astype cast df = Inl (ValueError ''astype'')"
  by (simp add: astype_def)

lemma prepare_cast_fails:
  "\<not> list_all (list_all (\<lambda>c. cast c \<noteq> None)) (rows df) \<Longrightarrow>
     prepare (Inr df) cast pick = Inl (ValueError ''astype'')"
  by (simp add: prepare_def astype_fail)

lemma prepare_too_few_rows:
  "list_all (list_all (\<lambda>c. cast c \<noteq> None)) (rows df) \<Longrightarrow> length (rows df) < 1500 \<Longrightarrow>
     prepare (Inr df) cast pick = Inl (ValueError ''sample'')"
  by (simp add: prepare_def astype_ok sample_def)

lemma prepare_missing_target:
  "list_all (list_all (\<lambda>c. cast c \<noteq> None)) (rows df) \<Longrightarrow> 1500 \<le> length (rows df) \<Longrightarrow>
   ''perf'' \<notin> set (col_names df) \<Longrightarrow>
     prepare (Inr df) cast pick = Inl (KeyError (PStr ''perf''))"
  by (simp add: prepare_def astype_ok sample_def column_def Let_def)

lemma main_prepare_fails:
  "prepare rd cast pick = Inl e \<Longrightarrow>
     main rd cast pick split cpu fit gbr isatty = Inl e"
  by (simp add: main_def)

text \<open>
  Claim C6, as the code has it. Preparation fails when the target column is absent and
  when the frame has fewer than 1500 rows, an empty frame included; with fewer than
  1500 rows the failure is the cast's or the subsample's \<open>ValueError\<close>. When the target
  column is absent, the failure is the \<open>KeyError\<close> of the feature/target split provided
  the frame has at least 1500 rows and every cell is numeric. Every failure of the
  preparation is the result of the whole run: the driver is never reached.
\<close>

theorem preparation_failures:
  "(''perf'' \<notin> set (col_names df) \<or> length (rows df) < 1500 \<longrightarrow>
      (\<exists>e. prepare (Inr df) cast pick = Inl e)) \<and>
   (length (rows df) < 1500 \<longrightarrow>
      prepare (Inr df) cast pick = Inl (ValueError ''astype'') \<or>
      prepare (Inr df) cast pick = Inl (ValueError ''sample'')) \<and>
   (''perf'' \<notin> set (col_names df) \<and> 1500 \<le> length (rows df) \<and>
    list_all (list_all (\<lambda>c. cast c \<noteq> None)) (rows df) \<longrightarrow>
      prepare (Inr df) cast pick = Inl (KeyError (PStr ''perf''))) \<and>
   (\<forall>e. prepare (Inr df) cast pick = Inl e \<longrightarrow>
      main (Inr df) cast pick split cpu fit get_best_result isatty = Inl e)"
proof (intro conjI impI allI)
  assume h: "''perf'' \<notin> set (col_names df) \<or> length (rows df) < 1500"
  show "\<exists>e. prepare (Inr df) cast pick = Inl e"
  proof (cases "list_all (list_all (\<lambda>c. cast c \<noteq> None)) (rows df)")
    case False
    then show ?thesis using prepare_cast_fails by blast
  next
    case ok: True
    show ?thesis
    proof (cases "length (rows df) < 1500")
      case True
      with ok show ?thesis using prepare_too_few_rows by blast
    next
      case False
      with h ok show ?thesis using prepare_missing_target [of cast df pick] by auto
    qed
  qed
next
  assume "length (rows df) < 1500"
  then show "prepare (Inr df) cast pick = Inl (ValueError ''astype'') \<or>
      prepare (Inr df) cast pick = Inl (ValueError ''sample'')"
    using prepare_cast_fails [of cast df pick] prepare_too_few_rows [of cast df pick]
    by blast
next
  assume "''perf'' \<notin> set (col_names df) \<and> 1500 \<le> length (rows df) \<and>
    list_all (list_all (\<lambda>c. cast c \<noteq> None)) (rows df)"
  then show "prepare (Inr df) cast pick = Inl (KeyError (PStr ''perf''))"
    using prepare_missing_target by blast
next
  fix e
  assume "prepare (Inr df) cast pick = Inl e"
  then show "main (Inr df) cast pick split cpu fit get_best_result isatty = Inl e"
    by (rule main_prepare_fails)
qed

theorem preparation_failures_witness:
  "prepare (Inr \<lparr>col_names = [''cpu'', ''mem''], rows = replicate 1500 [1, 2 :: int]\<rparr>)
     (\<lambda>c. Some c) (\<lambda>n k. [0..<k]) = Inl (KeyError (PStr ''perf'')) \<and>
   main (Inr \<lparr>col_names = [''cpu'', ''mem''], rows = replicate 1500 [1, 2 :: int]\<rparr>)
     (\<lambda>c. Some c) (\<lambda>n k. [0..<k]) (\<lambda>X y r s. Inl RuntimeError) 4
     (\<lambda>t. (Inl RuntimeError :: error + unit)) (\<lambda>r a b. Inl RuntimeError) True
     = Inl (KeyError (PStr ''perf''))"
  using preparation_failures [of
      "\<lparr>col_names = [''cpu'', ''mem''], rows = replicate 1500 [1, 2 :: int]\<rparr>"
      "\<lambda>c. Some c" "\<lambda>n k. [0..<k]" "\<lambda>X y r s. Inl RuntimeError" 4
      "\<lambda>t. (Inl RuntimeError :: error + unit)" "\<lambda>r a b. Inl RuntimeError" True]
  by (simp add: list_all_iff)

text \<open>
  The claim as stated fails: for a one-row frame without the target column the run
  stops at the subsample with \<open>ValueError\<close>, before the feature/target split.
\<close>

theorem missing_target_counterexample:
  "''perf'' \<notin> set (col_names \<lparr>col_names = [''cpu'', ''mem''], rows = [[1, 2 :: int]]\<rparr>) \<and>
   prepare (Inr \<lparr>col_names = [''cpu'', ''mem''], rows = [[1, 2 :: int]]\<rparr>)
     (\<lambda>c. Some c) (\<lambda>n k. [0..<k]) = Inl (ValueError ''sample'') \<and>
   prepare (Inr \<lparr>col_names = [''cpu'', ''mem''], rows = [[1, 2 :: int]]\<rparr>)
     (\<lambda>c. Some c) (\<lambda>n k. [0..<k]) \<noteq> Inl (KeyError (PStr ''perf''))"
  by (simp add: prepare_def astype_def sample_def)

end
